theory Spec2Isabelle
  imports Complex_Main
begin

section \<open>Values, settings and wheel events\<close>

text \<open>
  Varvet-Pageable (\<^verbatim>\<open>src/pageable.js\<close>) turns wheel events into page changes. The
  embedding follows the file method by method.

  JavaScript numbers are modelled as reals: the finite doubles, without rounding and
  without overflow. Where rounding decides a bound (the momentum curve of line 174) the
  arithmetic is modelled a second time, rounded to doubles. The settings, the deltas of
  the events and \<^verbatim>\<open>this.delta\<close> are such numbers. \<^verbatim>\<open>this.percentage\<close> can hold four more values, which the code produces:
  \<^verbatim>\<open>undefined\<close>, the value of a field that was never assigned; \<^verbatim>\<open>NaN\<close>, the result of
  arithmetic on \<^verbatim>\<open>undefined\<close> and of \<^verbatim>\<open>0/0\<close>; and the two infinities, the result of
  dividing a non-zero number by a \<^verbatim>\<open>pageHeight\<close> of zero. Every comparison with
  \<^verbatim>\<open>undefined\<close> or \<^verbatim>\<open>NaN\<close> is false, as in JavaScript.
\<close>

datatype jsnum = Undefined | NaN | NegInf | Num real | PosInf

definition js_gt :: "jsnum \<Rightarrow> real \<Rightarrow> bool" where
  "js_gt v c = (case v of Num r \<Rightarrow> r > c | PosInf \<Rightarrow> True | _ \<Rightarrow> False)"

definition js_ge :: "jsnum \<Rightarrow> real \<Rightarrow> bool" where
  "js_ge v c = (case v of Num r \<Rightarrow> r \<ge> c | PosInf \<Rightarrow> True | _ \<Rightarrow> False)"

definition js_lt :: "jsnum \<Rightarrow> real \<Rightarrow> bool" where
  "js_lt v c = (case v of Num r \<Rightarrow> r < c | NegInf \<Rightarrow> True | _ \<Rightarrow> False)"

definition js_le :: "jsnum \<Rightarrow> real \<Rightarrow> bool" where
  "js_le v c = (case v of Num r \<Rightarrow> r \<le> c | NegInf \<Rightarrow> True | _ \<Rightarrow> False)"

text \<open>The quotient \<^verbatim>\<open>a / b\<close> of two numbers; a zero divisor is \<^verbatim>\<open>+0\<close>.\<close>

definition js_div :: "real \<Rightarrow> real \<Rightarrow> jsnum" where
  "js_div a b =
     (if b \<noteq> 0 then Num (a / b)
      else if a > 0 then PosInf else if a < 0 then NegInf else NaN)"

text \<open>The settings object of lines 15--28, without the four callbacks: a call of a host
  callback is recorded as an effect (below), the callbacks themselves are not modelled.\<close>

record settings =
  pages :: int
  pageHeight :: real
  direction :: string
  stopAtPage :: bool
  momentum :: bool
  easeBack :: bool
  eventTimeout :: int

definition default_settings :: settings where
  "default_settings =
     \<lparr>pages = 0, pageHeight = 1000, direction = ''deltaY'', stopAtPage = False,
      momentum = False, easeBack = False, eventTimeout = 100\<rparr>"

text \<open>The options object given to the constructor: each key is present or not.\<close>

record options =
  opt_pages :: "int option"
  opt_pageHeight :: "real option"
  opt_direction :: "string option"
  opt_stopAtPage :: "bool option"
  opt_momentum :: "bool option"
  opt_easeBack :: "bool option"
  opt_eventTimeout :: "int option"

definition no_options :: options where
  "no_options =
     \<lparr>opt_pages = None, opt_pageHeight = None, opt_direction = None, opt_stopAtPage = None,
      opt_momentum = None, opt_easeBack = None, opt_eventTimeout = None\<rparr>"

definition override :: "'a \<Rightarrow> 'a option \<Rightarrow> 'a" where
  "override a b = (case b of None \<Rightarrow> a | Some v \<Rightarrow> v)"

text \<open>\<^verbatim>\<open>extend(a, b)\<close>, lines 65--72: every own key of \<^verbatim>\<open>b\<close> overwrites the key of \<^verbatim>\<open>a\<close>.
  Keys that are not settings are stored too and never read; they are left out.\<close>

definition extend_settings :: "settings \<Rightarrow> options \<Rightarrow> settings" where
  "extend_settings a b =
     \<lparr>pages = override (pages a) (opt_pages b),
      pageHeight = override (pageHeight a) (opt_pageHeight b),
      direction = override (direction a) (opt_direction b),
      stopAtPage = override (stopAtPage a) (opt_stopAtPage b),
      momentum = override (momentum a) (opt_momentum b),
      easeBack = override (easeBack a) (opt_easeBack b),
      eventTimeout = override (eventTimeout a) (opt_eventTimeout b)\<rparr>"

text \<open>A normalized wheel event: its numeric fields, read by name (\<^verbatim>\<open>e[direction]\<close>).\<close>

type_synonym wheel_event = "string \<Rightarrow> real"

definition wheel :: "real \<Rightarrow> wheel_event" where
  "wheel d = (\<lambda>key. if key = ''deltaY'' then d else 0)"

section \<open>Effects and results\<close>

text \<open>
  What a method does besides changing the object: it calls \<^verbatim>\<open>e.preventDefault()\<close> and
  the host's callbacks, with the arguments shown. A method returns the effects in the
  order in which they happen. The host callbacks are taken to observe only: they neither
  change the object nor throw.
\<close>

datatype effect =
    PreventDefault
  | HostScrollStart jsnum int
  | HostScroll jsnum int
  | HostScrollStop jsnum int
  | HostPageChange int int

definition is_callback :: "effect \<Rightarrow> bool" where
  "is_callback x = (x \<noteq> PreventDefault)"

definition callbacks :: "effect list \<Rightarrow> effect list" where
  "callbacks fx = filter is_callback fx"

datatype error = ReferenceError

datatype retval = RetUndefined | RetFalse

section \<open>The host's timers\<close>

text \<open>
  \<^verbatim>\<open>setTimeout\<close>, \<^verbatim>\<open>clearTimeout\<close>, \<^verbatim>\<open>setInterval\<close> and \<^verbatim>\<open>clearInterval\<close> belong to the
  host. The host keeps a table of the pending timeouts (handle and due time, in
  milliseconds) and of the armed intervals, and hands out fresh handles. Clearing a
  handle that is not in the table, or no handle at all, does nothing.
\<close>

record host =
  next_handle :: nat
  timeouts :: "(nat \<times> int) list"
  intervals :: "nat list"

definition fresh_host :: host where
  "fresh_host = \<lparr>next_handle = 0, timeouts = [], intervals = []\<rparr>"

definition setTimeout :: "int \<Rightarrow> int \<Rightarrow> host \<Rightarrow> nat \<times> host" where
  "setTimeout wait now h =
     (next_handle h,
      h\<lparr>next_handle := Suc (next_handle h),
        timeouts := timeouts h @ [(next_handle h, now + wait)]\<rparr>)"

definition clearTimeout :: "nat option \<Rightarrow> host \<Rightarrow> host" where
  "clearTimeout handle h =
     (case handle of
        None \<Rightarrow> h
      | Some k \<Rightarrow> h\<lparr>timeouts := filter (\<lambda>entry. fst entry \<noteq> k) (timeouts h)\<rparr>)"

definition setInterval :: "host \<Rightarrow> nat \<times> host" where
  "setInterval h =
     (next_handle h,
      h\<lparr>next_handle := Suc (next_handle h), intervals := intervals h @ [next_handle h]\<rparr>)"

definition clearInterval :: "nat option \<Rightarrow> host \<Rightarrow> host" where
  "clearInterval handle h =
     (case handle of
        None \<Rightarrow> h
      | Some k \<Rightarrow> h\<lparr>intervals := filter (\<lambda>i. i \<noteq> k) (intervals h)\<rparr>)"

section \<open>debounce\<close>

text \<open>
  \<^verbatim>\<open>debounce(func, wait, context)\<close>, lines 125--135. The closure owns one variable,
  \<^verbatim>\<open>timeout\<close>. A call of the returned function clears the timeout whose handle the
  variable holds and stores the handle of a new one, due \<^verbatim>\<open>wait\<close> milliseconds later.
\<close>

definition debounced_call :: "int \<Rightarrow> int \<Rightarrow> nat option \<times> host \<Rightarrow> nat option \<times> host" where
  "debounced_call wait now c =
     (let h1 = clearTimeout (fst c) (snd c);
          (k, h2) = setTimeout wait now h1
      in (Some k, h2))"

text \<open>
  The debouncer on its own, for any \<^verbatim>\<open>func\<close> acting on a context of type \<open>'s\<close>. The field
  \<open>d_fired\<close> is not part of the program: it records the times at which \<^verbatim>\<open>func\<close> ran.
\<close>

record 's debouncer =
  d_timeout :: "nat option"
  d_host :: host
  d_context :: 's
  d_fired :: "int list"

definition new_debouncer :: "nat \<Rightarrow> 's \<Rightarrow> 's debouncer" where
  "new_debouncer n c =
     \<lparr>d_timeout = None, d_host = \<lparr>next_handle = n, timeouts = [], intervals = []\<rparr>,
      d_context = c, d_fired = []\<rparr>"

definition d_call :: "int \<Rightarrow> int \<Rightarrow> 's debouncer \<Rightarrow> 's debouncer" where
  "d_call wait now d =
     (let (t, h) = debounced_call wait now (d_timeout d, d_host d)
      in d\<lparr>d_timeout := t, d_host := h\<rparr>)"

text \<open>\<^verbatim>\<open>later\<close>, lines 128--131, run by the host at time \<open>due\<close>.\<close>

definition later :: "('s \<Rightarrow> 's) \<Rightarrow> int \<Rightarrow> 's debouncer \<Rightarrow> 's debouncer" where
  "later func due d =
     d\<lparr>d_timeout := None, d_context := func (d_context d), d_fired := d_fired d @ [due]\<rparr>"

text \<open>
  The host's side. A pending timeout expires at its due time: the host takes it out of
  the table and runs its callback. Before it delivers a call made at time \<open>t\<close> the host
  lets every timeout expire that is due at \<open>t\<close> or earlier, the earliest first; when no
  call is left, the timeouts still pending expire.
\<close>

definition expire :: "('s \<Rightarrow> 's) \<Rightarrow> 's debouncer \<Rightarrow> nat \<times> int \<Rightarrow> 's debouncer" where
  "expire func d entry =
     later func (snd entry) (d\<lparr>d_host := clearTimeout (Some (fst entry)) (d_host d)\<rparr>)"

definition fire_due :: "('s \<Rightarrow> 's) \<Rightarrow> int \<Rightarrow> 's debouncer \<Rightarrow> 's debouncer" where
  "fire_due func t d =
     foldl (expire func) d
       (sort_key snd (filter (\<lambda>entry. snd entry \<le> t) (timeouts (d_host d))))"

definition fire_all :: "('s \<Rightarrow> 's) \<Rightarrow> 's debouncer \<Rightarrow> 's debouncer" where
  "fire_all func d = foldl (expire func) d (sort_key snd (timeouts (d_host d)))"

fun host_run :: "('s \<Rightarrow> 's) \<Rightarrow> int \<Rightarrow> int list \<Rightarrow> 's debouncer \<Rightarrow> 's debouncer" where
  "host_run func wait [] d = fire_all func d"
| "host_run func wait (t # ts) d = host_run func wait ts (d_call wait t (fire_due func t d))"

text \<open>A burst: call times in order, each less than \<open>wait\<close> after the one before.\<close>

fun burst :: "int \<Rightarrow> int list \<Rightarrow> bool" where
  "burst wait [] = True"
| "burst wait [t] = True"
| "burst wait (t # u # ts) = (t \<le> u \<and> u - t < wait \<and> burst wait (u # ts))"

section \<open>The Pageable object\<close>

text \<open>
  The fields of the object. \<^verbatim>\<open>stoppedAtPage\<close> is \<^verbatim>\<open>null\<close> or \<^verbatim>\<open>true\<close> and is only tested
  for truth: \<open>False\<close> stands for \<^verbatim>\<open>null\<close>. \<^verbatim>\<open>disabled\<close> is \<^verbatim>\<open>undefined\<close> until \<^verbatim>\<open>enable\<close> or
  \<^verbatim>\<open>disable\<close> assigns it and is only tested for truth: \<open>False\<close> stands for \<^verbatim>\<open>undefined\<close>
  too. \<^verbatim>\<open>easeInterval\<close> and \<^verbatim>\<open>easeStart\<close> are \<^verbatim>\<open>undefined\<close> (\<open>None\<close>) until
  \<^verbatim>\<open>startEasing\<close> assigns them.
\<close>

record pageable =
  settings :: settings
  page :: int
  delta :: real
  percentage :: jsnum
  scrolling :: bool
  stoppedAtPage :: bool
  disabled :: bool
  easeInterval :: "nat option"
  easeStart :: "int option"
  easeOrigin :: jsnum

text \<open>The object together with what its methods reach outside it: the \<^verbatim>\<open>timeout\<close>
  variable of the closure that replaces \<^verbatim>\<open>onScrollStop\<close> (line 39), and the host's
  timers.\<close>

record system =
  self :: pageable
  timeout :: "nat option"
  host :: host

text \<open>The constructor, lines 10--41. It assigns \<^verbatim>\<open>page\<close>, \<^verbatim>\<open>delta\<close>, \<^verbatim>\<open>scrolling\<close> and
  \<^verbatim>\<open>stoppedAtPage\<close>, and no other field.\<close>

definition Pageable :: "options \<Rightarrow> system" where
  "Pageable opts =
     \<lparr>self =
        \<lparr>settings = extend_settings default_settings opts, page = 0, delta = 0,
         percentage = Undefined, scrolling = False, stoppedAtPage = False,
         disabled = False, easeInterval = None, easeStart = None, easeOrigin = Undefined\<rparr>,
      timeout = None, host = fresh_host\<rparr>"

text \<open>\<^verbatim>\<open>gotoPage\<close>, lines 79--89.\<close>

definition gotoPage :: "int \<Rightarrow> pageable \<Rightarrow> pageable \<times> effect list" where
  "gotoPage p s =
     (s\<lparr>page := p, percentage := Num 0, delta := 0, stoppedAtPage := True\<rparr>,
      [HostPageChange (page s) p])"

definition enable :: "pageable \<Rightarrow> pageable" where
  "enable s = s\<lparr>disabled := False\<rparr>"

definition disable :: "pageable \<Rightarrow> pageable" where
  "disable s = s\<lparr>disabled := True\<rparr>"

text \<open>\<^verbatim>\<open>onScrollStart\<close>, lines 112--116.\<close>

definition onScrollStart :: "pageable \<Rightarrow> pageable \<times> effect list" where
  "onScrollStart s =
     (s\<lparr>scrolling := True, delta := 0\<rparr>, [HostScrollStart (percentage s) (page s)])"

text \<open>Line 174: \<^verbatim>\<open>1/(1+Math.pow(Math.E,-this.percentage)) - 0.5\<close>. At \<^verbatim>\<open>Infinity\<close> the
  power is 0 and the value \<open>1/1 - 0.5\<close>; at \<^verbatim>\<open>-Infinity\<close> the power is \<^verbatim>\<open>Infinity\<close> and
  the value \<open>0 - 0.5\<close>.\<close>

definition logistic :: "jsnum \<Rightarrow> jsnum" where
  "logistic v =
     (case v of
        Num r \<Rightarrow> Num (1 / (1 + exp 1 powr (- r)) - 1 / 2)
      | PosInf \<Rightarrow> Num (1 / 2)
      | NegInf \<Rightarrow> Num (- (1 / 2))
      | _ \<Rightarrow> NaN)"

text \<open>
  \<^verbatim>\<open>onScroll\<close>, lines 143--188, for an event delivered at time \<open>now\<close>. Three parts of
  its body are named, so that each can be reasoned about once: lines 162--164 (the call
  of \<^verbatim>\<open>onScrollStart\<close> when not yet scrolling), lines 166--167 (the new \<^verbatim>\<open>delta\<close> and
  \<^verbatim>\<open>percentage\<close>) and lines 170--175 (momentum past the borders).

  Lines 179 and 184 call \<^verbatim>\<open>this.gotoPage(page + 1)\<close> and \<^verbatim>\<open>this.gotoPage(page - 1)\<close>. The
  identifier \<^verbatim>\<open>page\<close> is neither a parameter nor a variable of \<^verbatim>\<open>onScroll\<close>, and the file
  declares no variable of that name (the host is taken to define no global \<^verbatim>\<open>page\<close>
  either): evaluating the argument raises a \<^verbatim>\<open>ReferenceError\<close> before \<^verbatim>\<open>gotoPage\<close> is
  entered. The assignments made up to that line stay.
\<close>

definition start_if_idle :: "pageable \<Rightarrow> pageable \<times> effect list" where
  "start_if_idle s = (if scrolling s = False then onScrollStart s else (s, []))"

definition accumulate :: "wheel_event \<Rightarrow> pageable \<Rightarrow> pageable" where
  "accumulate e s =
     (let s' = s\<lparr>delta := delta s + e (direction (settings s))\<rparr>
      in s'\<lparr>percentage := js_div (delta s') (pageHeight (settings s'))\<rparr>)"

definition past_border :: "pageable \<Rightarrow> bool" where
  "past_border s =
     (momentum (settings s) \<and>
      ((page s = pages (settings s) - 1 \<and> js_gt (percentage s) 0) \<or>
       (page s = 0 \<and> js_lt (percentage s) 0)))"

definition apply_momentum :: "pageable \<Rightarrow> pageable" where
  "apply_momentum s =
     (if past_border s then s\<lparr>percentage := logistic (percentage s)\<rparr> else s)"

definition onScroll ::
  "int \<Rightarrow> wheel_event \<Rightarrow> system \<Rightarrow> system \<times> effect list \<times> (error + retval)" where
  "onScroll now e w =
     (let s = self w in
      if disabled s then (w, [PreventDefault], Inr RetFalse)
      else
        let (t, h) = debounced_call (eventTimeout (settings s)) now (timeout w, host w);
            w1 = w\<lparr>timeout := t, host := h\<rparr>
        in
          if stopAtPage (settings s) \<and> stoppedAtPage s
          then (w1, [PreventDefault], Inr RetFalse)
          else
            let (s2, fx) = start_if_idle s;
                s5 = apply_momentum (accumulate e s2);
                w5 = w1\<lparr>self := s5\<rparr>
            in
              if js_ge (percentage s5) 1 \<and> page s5 < pages (settings s5) - 1
              then (w5, PreventDefault # fx, Inl ReferenceError)
              else if js_le (percentage s5) (- 1) \<and> page s5 > 0
              then (w5, PreventDefault # fx, Inl ReferenceError)
              else (w5, PreventDefault # fx @ [HostScroll (percentage s5) (page s5)],
                    Inr RetUndefined))"

text \<open>\<^verbatim>\<open>startEasing\<close>, lines 214--220; \<open>now\<close> is \<^verbatim>\<open>new Date().getTime()\<close>.\<close>

definition startEasing :: "int \<Rightarrow> system \<Rightarrow> system" where
  "startEasing now w =
     (let s = self w;
          h1 = clearInterval (easeInterval s) (host w);
          (k, h2) = setInterval h1
      in w\<lparr>self := s\<lparr>delta := 0, easeStart := Some now, easeOrigin := percentage s,
                     easeInterval := Some k\<rparr>,
           host := h2\<rparr>)"

text \<open>\<^verbatim>\<open>onScrollStop\<close>, lines 194--207: the function that is debounced.\<close>

definition onScrollStop :: "int \<Rightarrow> system \<Rightarrow> system \<times> effect list" where
  "onScrollStop now w =
     (let s = self w;
          s1 = (if stoppedAtPage s then s\<lparr>stoppedAtPage := False\<rparr> else s)
      in
        if easeBack (settings s1) then (startEasing now (w\<lparr>self := s1\<rparr>), [])
        else (w\<lparr>self := s1\<lparr>delta := 0, scrolling := False\<rparr>\<rparr>,
              [HostScrollStop (percentage s1) (page s1)]))"

text \<open>\<^verbatim>\<open>easeOut\<close>, lines 246--248: \<^verbatim>\<open>c*((t=t/d-1)*t*t*t*t + 1) + b\<close>.\<close>

definition easeOut :: "real \<Rightarrow> real \<Rightarrow> real \<Rightarrow> real \<Rightarrow> real" where
  "easeOut t b c d = (let u = t / d - 1 in c * (u * u * u * u * u + 1) + b)"

text \<open>
  Line 233, \<^verbatim>\<open>this.easeOut(now, this.easeOrigin, -this.easeOrigin, 300)\<close>, for every value
  the origin can have. From an infinite origin \<open>b\<close> the product \<^verbatim>\<open>c*(...)\<close> is infinite
  with the sign of \<open>b\<close> when the second factor is negative, and the sum is \<open>b\<close>; otherwise
  the product is \<^verbatim>\<open>NaN\<close> or the infinity opposite to \<open>b\<close>, and the sum \<^verbatim>\<open>NaN\<close>.
\<close>

definition ease_from :: "real \<Rightarrow> jsnum \<Rightarrow> jsnum" where
  "ease_from t origin =
     (case origin of
        Num b \<Rightarrow> Num (easeOut t b (- b) 300)
      | PosInf \<Rightarrow> (if easeOut t 0 1 300 < 0 then PosInf else NaN)
      | NegInf \<Rightarrow> (if easeOut t 0 1 300 < 0 then NegInf else NaN)
      | _ \<Rightarrow> NaN)"

text \<open>\<^verbatim>\<open>interpolateBack\<close>, lines 227--235, run by the host on every tick of the interval.\<close>

definition interpolateBack :: "int \<Rightarrow> system \<Rightarrow> system \<times> effect list" where
  "interpolateBack now w =
     (let s = self w in
      case easeStart s of
        None \<Rightarrow> (w\<lparr>self := s\<lparr>percentage := NaN\<rparr>\<rparr>, [HostScroll NaN (page s)])
      | Some start \<Rightarrow>
          let elapsed = now - start;
              h = (if elapsed > 300 then clearInterval (easeInterval s) (host w) else host w);
              t = (if elapsed > 300 then 300 else elapsed);
              p = ease_from (of_int t) (easeOrigin s)
          in (w\<lparr>self := s\<lparr>percentage := p\<rparr>, host := h\<rparr>, [HostScroll p (page s)]))"

section \<open>The host's event loop\<close>

text \<open>
  What the host can do to a constructed object: deliver a wheel event to the listener,
  let the debounce timeout expire (it runs \<^verbatim>\<open>later\<close>: the closure's variable is reset
  and \<^verbatim>\<open>onScrollStop\<close> runs), tick the easing interval, and call \<^verbatim>\<open>enable\<close> or
  \<^verbatim>\<open>disable\<close>. A timeout expires only when it is pending and due, the interval ticks
  only while it is armed. An exception of the listener ends that call only: the host
  reports it and goes on.
\<close>

datatype host_event =
    Wheel int wheel_event
  | TimeoutDue int
  | IntervalTick int
  | CallEnable
  | CallDisable

fun dispatch :: "host_event \<Rightarrow> system \<Rightarrow> system \<times> effect list" where
  "dispatch (Wheel now e) w = (let (w', fx, r) = onScroll now e w in (w', fx))"
| "dispatch (TimeoutDue now) w =
     (case filter (\<lambda>entry. snd entry \<le> now) (timeouts (host w)) of
        [] \<Rightarrow> (w, [])
      | entry # _ \<Rightarrow>
          onScrollStop now
            (w\<lparr>timeout := None, host := clearTimeout (Some (fst entry)) (host w)\<rparr>))"
| "dispatch (IntervalTick now) w =
     (if intervals (host w) = [] then (w, []) else interpolateBack now w)"
| "dispatch CallEnable w = (w\<lparr>self := enable (self w)\<rparr>, [])"
| "dispatch CallDisable w = (w\<lparr>self := disable (self w)\<rparr>, [])"

fun run :: "host_event list \<Rightarrow> system \<Rightarrow> system \<times> effect list" where
  "run [] w = (w, [])"
| "run (ev # evs) w =
     (let (w1, fx1) = dispatch ev w; (w2, fx2) = run evs w1 in (w2, fx1 @ fx2))"

text \<open>The range of valid page indices: \<open>0 \<le> page \<le> pages - 1\<close>.\<close>

definition page_in_range :: "pageable \<Rightarrow> bool" where
  "page_in_range s = (0 \<le> page s \<and> page s \<le> pages (settings s) - 1)"

text \<open>The host calling the public method \<^verbatim>\<open>gotoPage\<close> on the object, and a list of
  wheel events, each with its time of delivery.\<close>

definition call_gotoPage :: "int \<Rightarrow> system \<Rightarrow> system \<times> effect list" where
  "call_gotoPage p w = (let (s, fx) = gotoPage p (self w) in (w\<lparr>self := s\<rparr>, fx))"

definition wheels :: "(int \<times> wheel_event) list \<Rightarrow> host_event list" where
  "wheels tes = map (\<lambda>te. Wheel (fst te) (snd te)) tes"

section \<open>Double precision\<close>

text \<open>
  Where a bound is decided by rounding, the reals above say too much: a JavaScript
  number is a double, and every arithmetic operation returns the double nearest to the
  exact result, a tie going to the even significand. \<open>fl x\<close> is that double. A double
  with exponent \<open>e\<close> is a multiple of \<open>2 powr (e - 52)\<close>, the \<open>quantum\<close> of its binade; the
  exponent is at least \<open>-1022\<close>, below which the doubles are the multiples of
  \<open>2 powr (-1074)\<close>. Overflow to an infinity is left out: \<open>fl\<close> is meant for numbers below
  \<open>2 powr 1024\<close>.
\<close>

definition rne :: "real \<Rightarrow> int" where
  "rne r =
     (let n = \<lfloor>r\<rfloor>; f = r - of_int n
      in if f < 1 / 2 then n else if 1 / 2 < f then n + 1 else if even n then n else n + 1)"

definition exponent :: "real \<Rightarrow> int" where
  "exponent x = max \<lfloor>log 2 \<bar>x\<bar>\<rfloor> (- 1022)"

definition quantum :: "real \<Rightarrow> real" where
  "quantum x = 2 powr (of_int (exponent x) - 52)"

definition fl :: "real \<Rightarrow> real" where
  "fl x = (if x = 0 then 0 else quantum x * of_int (rne (x / quantum x)))"

text \<open>
  \<^verbatim>\<open>Math.E\<close> is the double nearest to \<open>e\<close>, \<^verbatim>\<open>0x1.5bf0a8b145769p+1\<close>. \<^verbatim>\<open>Math.pow\<close> is taken
  to return the double nearest to the exact power.
\<close>

definition Math_E :: real where
  "Math_E = 6121026514868073 / 2251799813685248"

definition Math_pow :: "real \<Rightarrow> real \<Rightarrow> real" where
  "Math_pow a b = fl (a powr b)"

text \<open>Line 174 in double precision: the power, the sum, the quotient and the difference
  are rounded each. The negation and the constants \<open>1\<close> and \<open>0.5\<close> are exact.\<close>

definition logistic64 :: "jsnum \<Rightarrow> jsnum" where
  "logistic64 v =
     (case v of
        Num r \<Rightarrow> Num (fl (fl (1 / fl (1 + Math_pow Math_E (- r))) - 1 / 2))
      | PosInf \<Rightarrow> Num (1 / 2)
      | NegInf \<Rightarrow> Num (- (1 / 2))
      | _ \<Rightarrow> NaN)"

text \<open>Lines 166--167 and 170--175 in double precision, and \<^verbatim>\<open>onScroll\<close> with them: the
  same body, the sum of line 166, the quotient of line 167 and line 174 rounded.\<close>

definition js_div64 :: "real \<Rightarrow> real \<Rightarrow> jsnum" where
  "js_div64 a b =
     (if b \<noteq> 0 then Num (fl (a / b))
      else if a > 0 then PosInf else if a < 0 then NegInf else NaN)"

definition accumulate64 :: "wheel_event \<Rightarrow> pageable \<Rightarrow> pageable" where
  "accumulate64 e s =
     (let s' = s\<lparr>delta := fl (delta s + e (direction (settings s)))\<rparr>
      in s'\<lparr>percentage := js_div64 (delta s') (pageHeight (settings s'))\<rparr>)"

definition apply_momentum64 :: "pageable \<Rightarrow> pageable" where
  "apply_momentum64 s =
     (if past_border s then s\<lparr>percentage := logistic64 (percentage s)\<rparr> else s)"


section \<open>Example configurations\<close>

definition two_pages :: options where
  "two_pages = no_options\<lparr>opt_pages := Some 2\<rparr>"

definition three_pages_locking :: options where
  "three_pages_locking = no_options\<lparr>opt_pages := Some 3, opt_stopAtPage := Some True\<rparr>"

definition two_pages_easing :: options where
  "two_pages_easing = no_options\<lparr>opt_pages := Some 2, opt_easeBack := Some True\<rparr>"

definition one_page_momentum :: options where
  "one_page_momentum = no_options\<lparr>opt_pages := Some 1, opt_momentum := Some True\<rparr>"

definition disabled_two_pages :: system where
  "disabled_two_pages = Pageable two_pages\<lparr>self := disable (self (Pageable two_pages))\<rparr>"

section \<open>Facts about the parts of onScroll\<close>

lemmas host_defs = debounced_call_def clearTimeout_def setTimeout_def setInterval_def
  clearInterval_def fresh_host_def

lemmas ctor_defs = Pageable_def no_options_def extend_settings_def default_settings_def
  override_def two_pages_def three_pages_locking_def two_pages_easing_def
  disabled_two_pages_def one_page_momentum_def

lemmas scroll_defs = onScroll_def start_if_idle_def onScrollStart_def accumulate_def
  apply_momentum_def past_border_def js_gt_def js_ge_def js_lt_def js_le_def js_div_def
  wheel_def Let_def split_def

lemma logistic_Num: "logistic (Num r) = Num (1 / (1 + exp (- r)) - 1 / 2)"
  by (simp add: logistic_def powr_def)

lemma start_if_idle_fields [simp]:
  "page (fst (start_if_idle s)) = page s"
  "settings (fst (start_if_idle s)) = settings s"
  "stoppedAtPage (fst (start_if_idle s)) = stoppedAtPage s"
  "disabled (fst (start_if_idle s)) = disabled s"
  "scrolling (fst (start_if_idle s)) = True"
  by (simp_all add: start_if_idle_def onScrollStart_def)

lemma start_if_idle_effects:
  "snd (start_if_idle s) =
     (if scrolling s then [] else [HostScrollStart (percentage s) (page s)])"
  by (simp add: start_if_idle_def onScrollStart_def)

lemma delta_after_start: "delta s = 0 \<Longrightarrow> delta (fst (start_if_idle s)) = 0"
  by (simp add: start_if_idle_def onScrollStart_def)

lemma accumulate_fields [simp]:
  "page (accumulate e s) = page s"
  "settings (accumulate e s) = settings s"
  "stoppedAtPage (accumulate e s) = stoppedAtPage s"
  "disabled (accumulate e s) = disabled s"
  "scrolling (accumulate e s) = scrolling s"
  "delta (accumulate e s) = delta s + e (direction (settings s))"
  "percentage (accumulate e s) =
     js_div (delta s + e (direction (settings s))) (pageHeight (settings s))"
  by (simp_all add: accumulate_def Let_def)

lemma apply_momentum_fields [simp]:
  "page (apply_momentum s) = page s"
  "settings (apply_momentum s) = settings s"
  "stoppedAtPage (apply_momentum s) = stoppedAtPage s"
  "disabled (apply_momentum s) = disabled s"
  "scrolling (apply_momentum s) = scrolling s"
  "delta (apply_momentum s) = delta s"
  by (simp_all add: apply_momentum_def)

lemma js_div_assigned: "js_div a b \<noteq> Undefined"
  by (simp add: js_div_def)

lemma logistic_assigned: "logistic v \<noteq> Undefined"
  by (cases v) (simp_all add: logistic_def)

lemma apply_momentum_assigned:
  "percentage s \<noteq> Undefined \<Longrightarrow> percentage (apply_momentum s) \<noteq> Undefined"
  by (simp add: apply_momentum_def logistic_assigned)

text \<open>A handled event: the object is enabled and the lock of line 152 is open. The
  object is then what lines 162--175 make of it, whether or not line 179 or 184 throws.\<close>

lemma onScroll_accepted:
  "\<not> disabled (self w) \<Longrightarrow> \<not> (stopAtPage (settings (self w)) \<and> stoppedAtPage (self w)) \<Longrightarrow>
     self (fst (onScroll now e w)) = apply_momentum (accumulate e (fst (start_if_idle (self w))))"
  by (auto simp add: onScroll_def Let_def split_def)

lemma onScroll_locked:
  "stopAtPage (settings (self w)) \<Longrightarrow> stoppedAtPage (self w) \<Longrightarrow>
     self (fst (onScroll now e w)) = self w \<and>
     fst (snd (onScroll now e w)) = [PreventDefault] \<and>
     snd (snd (onScroll now e w)) = Inr RetFalse"
  by (simp add: onScroll_def Let_def split_def)

section \<open>The page never changes while scrolling\<close>

text \<open>
  No path through \<^verbatim>\<open>onScroll\<close> reaches \<^verbatim>\<open>gotoPage\<close>: where a threshold is passed the
  \<^verbatim>\<open>ReferenceError\<close> comes first. So neither a wheel event, nor the stop timeout, nor a
  tick of the easing interval changes \<^verbatim>\<open>page\<close> or the settings, and \<^verbatim>\<open>onPageChange\<close> is
  never called.
\<close>

lemma onScroll_page: "page (self (fst (onScroll now e w))) = page (self w)"
  by (simp add: onScroll_def Let_def split_def)

lemma onScroll_settings: "settings (self (fst (onScroll now e w))) = settings (self w)"
  by (simp add: onScroll_def Let_def split_def)

lemma onScroll_no_page_change: "HostPageChange a b \<notin> set (fst (snd (onScroll now e w)))"
  by (simp add: onScroll_def Let_def split_def start_if_idle_effects)

lemma onScrollStop_page: "page (self (fst (onScrollStop now w))) = page (self w)"
  by (simp add: onScrollStop_def startEasing_def Let_def split_def)

lemma onScrollStop_settings: "settings (self (fst (onScrollStop now w))) = settings (self w)"
  by (simp add: onScrollStop_def startEasing_def Let_def split_def)

lemma interpolateBack_page: "page (self (fst (interpolateBack now w))) = page (self w)"
  by (simp add: interpolateBack_def Let_def split: option.splits)

lemma interpolateBack_settings:
  "settings (self (fst (interpolateBack now w))) = settings (self w)"
  by (simp add: interpolateBack_def Let_def split: option.splits)

lemma dispatch_page: "page (self (fst (dispatch ev w))) = page (self w)"
  by (cases ev)
     (simp_all add: split_def Let_def onScroll_page onScrollStop_page interpolateBack_page
        enable_def disable_def split: list.splits)

lemma dispatch_settings: "settings (self (fst (dispatch ev w))) = settings (self w)"
  by (cases ev)
     (simp_all add: split_def Let_def onScroll_settings onScrollStop_settings
        interpolateBack_settings enable_def disable_def split: list.splits)

lemma run_page_settings:
  "page (self (fst (run evs w))) = page (self w) \<and>
   settings (self (fst (run evs w))) = settings (self w)"
  by (induction evs arbitrary: w)
     (simp_all add: split_def Let_def dispatch_page dispatch_settings)

lemma dispatch_no_page_change: "HostPageChange a b \<notin> set (snd (dispatch ev w))"
proof (cases ev)
  case (Wheel now e)
  then show ?thesis
    using onScroll_no_page_change [of a b now e w] by (simp add: split_def Let_def)
next
  case (TimeoutDue now)
  then show ?thesis
    by (simp add: onScrollStop_def Let_def split: list.splits)
next
  case (IntervalTick now)
  then show ?thesis by (simp add: interpolateBack_def Let_def split: option.splits)
qed simp_all

lemma run_no_page_change: "HostPageChange a b \<notin> set (snd (run evs w))"
  by (induction evs arbitrary: w) (simp_all add: split_def Let_def dispatch_no_page_change)

lemma page_in_range_preserved:
  "page_in_range (self w) \<Longrightarrow> page_in_range (self (fst (dispatch ev w)))"
  by (simp add: page_in_range_def dispatch_page dispatch_settings)

text \<open>
  C1: scroll events whose deltas sum to \<^verbatim>\<open>pageHeight\<close>, on page 0 of at least two pages
  and without momentum, are to move the object to page 1 and call \<^verbatim>\<open>onPageChange(0, 1)\<close>
  once. The code does not: two pages, the default \<^verbatim>\<open>pageHeight\<close> of 1000, one event with
  delta 1000. The percentage becomes 1, line 178 holds, line 179 throws. The page is
  still 0 and the only callback made is \<^verbatim>\<open>onScrollStart\<close>.
\<close>

theorem full_page_scroll_throws:
  "snd (snd (onScroll 0 (wheel 1000) (Pageable two_pages))) = Inl ReferenceError \<and>
   page (self (fst (onScroll 0 (wheel 1000) (Pageable two_pages)))) = 0 \<and>
   percentage (self (fst (onScroll 0 (wheel 1000) (Pageable two_pages)))) = Num 1 \<and>
   callbacks (fst (snd (onScroll 0 (wheel 1000) (Pageable two_pages))))
     = [HostScrollStart Undefined 0]"
  by (simp add: scroll_defs ctor_defs host_defs callbacks_def is_callback_def)

text \<open>
  C2: from construction with \<open>pages > 0\<close>, whatever the host delivers (wheel events of
  any delta, the stop timeout, ticks of the easing interval, \<^verbatim>\<open>enable\<close>, \<^verbatim>\<open>disable\<close>), the
  page is within \<open>[0, pages - 1]\<close> after every prefix of the events, that is before and
  after each of them.
\<close>

theorem page_stays_in_range:
  "0 < pages (settings (self (Pageable opts))) \<Longrightarrow>
     page_in_range (self (fst (run (take n evs) (Pageable opts))))"
proof -
  assume pos: "0 < pages (settings (self (Pageable opts)))"
  have "page (self (Pageable opts)) = 0" by (simp add: Pageable_def)
  with pos show ?thesis by (simp add: page_in_range_def run_page_settings)
qed

theorem page_stays_in_range_witness:
  "0 < pages (settings (self (Pageable two_pages))) \<and>
   page_in_range (self (fst (run
     (take 3 [Wheel 0 (wheel 400), Wheel 10 (wheel 600), TimeoutDue 110,
              Wheel 200 (wheel (- 3000))])
     (Pageable two_pages))))"
  using page_stays_in_range
    [of two_pages 3 "[Wheel 0 (wheel 400), Wheel 10 (wheel 600), TimeoutDue 110,
                      Wheel 200 (wheel (- 3000))]"]
  by (simp add: ctor_defs)

section \<open>Momentum at the last page, in exact arithmetic\<close>

text \<open>
  Over the reals the logistic curve of line 174 maps a positive percentage strictly
  between 0 and 1/2, so neither threshold of lines 178 and 183 is reached and
  \<^verbatim>\<open>onScroll\<close> returns normally.
\<close>

lemma logistic_real_bounds:
  "0 < r \<Longrightarrow> 0 < 1 / (1 + exp (- r)) - 1 / 2 \<and> 1 / (1 + exp (- r)) - 1 / 2 < (1 / 2 :: real)"
proof -
  assume "0 < r"
  then have small: "exp (- r) < 1" by simp
  have pos: "0 < exp (- r)" by simp
  from pos have sum: "0 < 1 + exp (- r)" "1 < 1 + exp (- r)" by linarith+
  then have upper: "1 / (1 + exp (- r)) < 1" by (subst divide_less_eq_1_pos)
  from small pos have "0 < 1 + exp (- r)" "1 + exp (- r) < 2" by linarith+
  then have lower: "1 / 2 < 1 / (1 + exp (- r))"
    by (intro divide_strict_left_mono) simp_all
  from upper lower show ?thesis by simp
qed

lemma momentum_last_page_real:
  assumes on: "\<not> disabled (self w)"
      "\<not> (stopAtPage (settings (self w)) \<and> stoppedAtPage (self w))"
    and mom: "momentum (settings (self w))"
    and last: "page (self w) = pages (settings (self w)) - 1"
    and height: "0 < pageHeight (settings (self w))"
    and travel: "0 < delta (accumulate e (fst (start_if_idle (self w))))"
  shows "\<exists>r. percentage (self (fst (onScroll now e w))) = Num r \<and> 0 < r \<and> r < 1 / 2"
    and "snd (snd (onScroll now e w)) = Inr RetUndefined"
proof -
  let ?s2 = "fst (start_if_idle (self w))"
  let ?p = "(delta ?s2 + e (direction (settings (self w)))) / pageHeight (settings (self w))"
  from travel height have p: "0 < ?p" by simp
  from height have acc: "percentage (accumulate e ?s2) = Num ?p" by (simp add: js_div_def)
  with mom last p have border: "past_border (accumulate e ?s2)"
    by (simp add: past_border_def js_gt_def)
  with acc have pct: "percentage (apply_momentum (accumulate e ?s2))
      = Num (1 / (1 + exp (- ?p)) - 1 / 2)"
    by (simp add: apply_momentum_def logistic_Num)
  from on have self': "self (fst (onScroll now e w)) = apply_momentum (accumulate e ?s2)"
    by (rule onScroll_accepted)
  from logistic_real_bounds [OF p] pct self'
  show "\<exists>r. percentage (self (fst (onScroll now e w))) = Num r \<and> 0 < r \<and> r < 1 / 2"
    by simp
  from logistic_real_bounds [OF p] have "\<not> 1 \<le> 1 / (1 + exp (- ?p)) - 1 / 2"
    "\<not> 1 / (1 + exp (- ?p)) - 1 / 2 \<le> - 1" by linarith+
  with on pct show "snd (snd (onScroll now e w)) = Inr RetUndefined"
    by (simp add: onScroll_def Let_def split_def js_ge_def js_le_def)
qed

section \<open>Rounding to the nearest double\<close>




















section \<open>Momentum at the last page, in double precision\<close>







lemma accumulate64_fields [simp]:
  "page (accumulate64 e s) = page s"
  "settings (accumulate64 e s) = settings s"
  "delta (accumulate64 e s) = fl (delta s + e (direction (settings s)))"
  "percentage (accumulate64 e s) =
     js_div64 (fl (delta s + e (direction (settings s)))) (pageHeight (settings s))"
  by (simp_all add: accumulate64_def Let_def)

lemma apply_momentum64_fields [simp]:
  "page (apply_momentum64 s) = page s"
  "settings (apply_momentum64 s) = settings s"
  "delta (apply_momentum64 s) = delta s"
  by (simp_all add: apply_momentum64_def)








section \<open>The onScroll callback\<close>

text \<open>When \<^verbatim>\<open>onScroll\<close> returns normally, the host's \<^verbatim>\<open>onScroll\<close> callback is its last
  effect, called once, with the percentage and the page the object then has.\<close>

lemma onScroll_callback_last:
  assumes "snd (snd (onScroll now e w)) = Inr RetUndefined"
  shows "fst (snd (onScroll now e w)) =
           PreventDefault # snd (start_if_idle (self w)) @
           [HostScroll (percentage (self (fst (onScroll now e w))))
                       (page (self (fst (onScroll now e w))))]"
    and "HostScroll p q \<notin> set (snd (start_if_idle (self w)))"
proof -
  show "HostScroll p q \<notin> set (snd (start_if_idle (self w)))"
    by (simp add: start_if_idle_effects)
  from assms have handled: "\<not> disabled (self w)"
    "\<not> (stopAtPage (settings (self w)) \<and> stoppedAtPage (self w))"
    by (auto simp add: onScroll_def Let_def split_def split: if_splits)
  let ?s5 = "apply_momentum (accumulate e (fst (start_if_idle (self w))))"
  from handled have s5: "self (fst (onScroll now e w)) = ?s5"
    by (rule onScroll_accepted)
  from assms handled have
    "\<not> (js_ge (percentage ?s5) 1 \<and> page ?s5 < pages (settings ?s5) - 1)"
    "\<not> (js_le (percentage ?s5) (- 1) \<and> page ?s5 > 0)"
    by (auto simp add: onScroll_def Let_def split_def split: if_splits)
  with handled have "fst (snd (onScroll now e w)) =
      PreventDefault # snd (start_if_idle (self w)) @ [HostScroll (percentage ?s5) (page ?s5)]"
    by (auto simp add: onScroll_def Let_def split_def)
  with s5 show "fst (snd (onScroll now e w)) =
           PreventDefault # snd (start_if_idle (self w)) @
           [HostScroll (percentage (self (fst (onScroll now e w))))
                       (page (self (fst (onScroll now e w))))]"
    by simp
qed

text \<open>When a handled event passes the forward threshold of line 178, \<^verbatim>\<open>onScroll\<close> throws
  and the callback of line 187 is not made.\<close>

lemma onScroll_threshold_throws:
  assumes "\<not> disabled (self w)"
      "\<not> (stopAtPage (settings (self w)) \<and> stoppedAtPage (self w))"
    and "js_ge (percentage (apply_momentum (accumulate e (fst (start_if_idle (self w)))))) 1"
    and "page (self w) < pages (settings (self w)) - 1"
  shows "snd (snd (onScroll now e w)) = Inl ReferenceError"
    and "fst (snd (onScroll now e w)) = PreventDefault # snd (start_if_idle (self w))"
  using assms by (auto simp add: onScroll_def Let_def split_def)

text \<open>
  C4: every handled scroll event is to end with one call of the \<^verbatim>\<open>onScroll\<close> callback,
  made after the page-transition checks. The code does not when a check succeeds: two
  pages, \<^verbatim>\<open>pageHeight\<close> 1000, an event with delta 400 and then one with delta 600. The
  second event is handled (the object is enabled, \<^verbatim>\<open>stopAtPage\<close> is off), brings the
  percentage to 1, and line 179 throws: \<^verbatim>\<open>onScroll\<close> ends before line 187, with no
  callback made.
\<close>

theorem threshold_event_skips_callback:
  "snd (onScroll 10 (wheel 600) (fst (onScroll 0 (wheel 400) (Pageable two_pages))))
     = ([PreventDefault], Inl ReferenceError) \<and>
   disabled (self (fst (onScroll 0 (wheel 400) (Pageable two_pages)))) = False \<and>
   stopAtPage (settings (self (fst (onScroll 0 (wheel 400) (Pageable two_pages))))) = False \<and>
   percentage (self (fst (onScroll 10 (wheel 600)
     (fst (onScroll 0 (wheel 400) (Pageable two_pages)))))) = Num 1"
  by (simp add: scroll_defs ctor_defs host_defs)

section \<open>The stopAtPage lock\<close>

lemma run_wheels_locked:
  "stopAtPage (settings (self w)) \<Longrightarrow> stoppedAtPage (self w) \<Longrightarrow>
     self (fst (run (wheels tes) w)) = self w \<and> callbacks (snd (run (wheels tes) w)) = []"
proof (induction tes arbitrary: w)
  case Nil
  then show ?case by (simp add: wheels_def callbacks_def)
next
  case (Cons te tes)
  let ?w1 = "fst (onScroll (fst te) (snd te) w)"
  from Cons.prems have step: "self ?w1 = self w"
    "fst (snd (onScroll (fst te) (snd te) w)) = [PreventDefault]"
    using onScroll_locked [of w "fst te" "snd te"] by simp_all
  with Cons.prems have "stopAtPage (settings (self ?w1))" "stoppedAtPage (self ?w1)"
    by simp_all
  from Cons.IH [OF this] step show ?case
    by (simp add: wheels_def split_def Let_def callbacks_def is_callback_def)
qed

lemma onScrollStop_releases:
  "stoppedAtPage (self (fst (onScrollStop now w))) = False \<and>
   delta (self (fst (onScrollStop now w))) = 0 \<and>
   disabled (self (fst (onScrollStop now w))) = disabled (self w)"
  by (simp add: onScrollStop_def startEasing_def Let_def split_def)

text \<open>
  C5: with \<^verbatim>\<open>stopAtPage\<close> on, after a page change (a call of \<^verbatim>\<open>gotoPage\<close>) any number of
  wheel events leave every field of the object as it was and call no host callback.
  Once the stop effect (\<^verbatim>\<open>onScrollStop\<close>) has run, an enabled object takes input again:
  the next event passes the lock, starts a scroll and is counted in \<^verbatim>\<open>delta\<close>.
\<close>

theorem stopAtPage_lock:
  "stopAtPage (settings (self w)) \<Longrightarrow>
     self (fst (run (wheels tes) (fst (call_gotoPage p w)))) = self (fst (call_gotoPage p w)) \<and>
     callbacks (snd (run (wheels tes) (fst (call_gotoPage p w)))) = [] \<and>
     (\<not> disabled (self w) \<longrightarrow>
        delta (self (fst (onScroll t e
          (fst (onScrollStop now (fst (run (wheels tes) (fst (call_gotoPage p w)))))))))
          = e (direction (settings (self w))) \<and>
        scrolling (self (fst (onScroll t e
          (fst (onScrollStop now (fst (run (wheels tes) (fst (call_gotoPage p w))))))))))"
proof -
  assume stop: "stopAtPage (settings (self w))"
  let ?w1 = "fst (call_gotoPage p w)"
  let ?w2 = "fst (run (wheels tes) ?w1)"
  let ?w3 = "fst (onScrollStop now ?w2)"
  have w1: "settings (self ?w1) = settings (self w)" "stoppedAtPage (self ?w1)"
    "disabled (self ?w1) = disabled (self w)"
    by (simp_all add: call_gotoPage_def gotoPage_def)
  with stop have locked: "self ?w2 = self ?w1 \<and> callbacks (snd (run (wheels tes) ?w1)) = []"
    using run_wheels_locked [of ?w1 tes] by simp
  have w3: "stoppedAtPage (self ?w3) = False" "delta (self ?w3) = 0"
    "disabled (self ?w3) = disabled (self ?w2)"
    using onScrollStop_releases [of now ?w2] by simp_all
  have set3: "settings (self ?w3) = settings (self w)"
    using locked w1 by (simp add: onScrollStop_settings)
  have "delta (self (fst (onScroll t e ?w3))) = e (direction (settings (self w))) \<and>
        scrolling (self (fst (onScroll t e ?w3)))" if "\<not> disabled (self w)"
  proof -
    from that locked w1 w3 have "\<not> disabled (self ?w3)" by simp
    with w3 have "self (fst (onScroll t e ?w3))
        = apply_momentum (accumulate e (fst (start_if_idle (self ?w3))))"
      by (simp add: onScroll_accepted)
    with w3 set3 show ?thesis by (simp add: delta_after_start)
  qed
  with locked show ?thesis by simp
qed

theorem stopAtPage_lock_witness:
  "stopAtPage (settings (self (Pageable three_pages_locking))) \<and>
   \<not> disabled (self (Pageable three_pages_locking)) \<and>
   self (fst (run (wheels [(0, wheel 500), (10, wheel 700)])
     (fst (call_gotoPage 1 (Pageable three_pages_locking)))))
     = self (fst (call_gotoPage 1 (Pageable three_pages_locking))) \<and>
   callbacks (snd (run (wheels [(0, wheel 500), (10, wheel 700)])
     (fst (call_gotoPage 1 (Pageable three_pages_locking))))) = [] \<and>
   delta (self (fst (onScroll 200 (wheel 30)
     (fst (onScrollStop 110 (fst (run (wheels [(0, wheel 500), (10, wheel 700)])
       (fst (call_gotoPage 1 (Pageable three_pages_locking)))))))))) = 30"
  using stopAtPage_lock
    [of "Pageable three_pages_locking" "[(0, wheel 500), (10, wheel 700)]" 1 200 "wheel 30" 110]
  by (simp add: ctor_defs wheel_def)

section \<open>The stop effect\<close>

text \<open>
  C6: when the stop effect runs with \<^verbatim>\<open>easeBack\<close> on, the easing starts (\<^verbatim>\<open>delta\<close> is
  reset, the start time and the origin are recorded, a new interval is armed and its
  handle kept) and \<^verbatim>\<open>onScrollStop\<close> of the host is not called; with \<^verbatim>\<open>easeBack\<close> off the
  host's \<^verbatim>\<open>onScrollStop\<close> is called with the percentage and the page, \<^verbatim>\<open>delta\<close> is reset
  and \<^verbatim>\<open>scrolling\<close> is false.
\<close>

theorem onScrollStop_effect:
  "onScrollStop now w = (w', fx) \<Longrightarrow>
     (if easeBack (settings (self w))
      then fx = [] \<and> delta (self w') = 0 \<and> easeStart (self w') = Some now \<and>
           easeOrigin (self w') = percentage (self w) \<and>
           easeInterval (self w') = Some (next_handle (host w)) \<and>
           next_handle (host w) \<in> set (intervals (host w'))
      else fx = [HostScrollStop (percentage (self w)) (page (self w))] \<and>
           delta (self w') = 0 \<and> scrolling (self w') = False \<and> host w' = host w)"
  by (cases "easeInterval (self w)")
     (auto simp add: onScrollStop_def startEasing_def Let_def setInterval_def clearInterval_def
           split: if_splits)

theorem onScrollStop_effect_witness:
  "snd (onScrollStop 150 (fst (onScroll 0 (wheel 500) (Pageable two_pages_easing)))) = [] \<and>
   easeStart (self (fst (onScrollStop 150
       (fst (onScroll 0 (wheel 500) (Pageable two_pages_easing)))))) = Some 150 \<and>
   easeOrigin (self (fst (onScrollStop 150
       (fst (onScroll 0 (wheel 500) (Pageable two_pages_easing)))))) = Num (1 / 2) \<and>
   snd (onScrollStop 150 (fst (onScroll 0 (wheel 500) (Pageable two_pages))))
     = [HostScrollStop (Num (1 / 2)) 0] \<and>
   delta (self (fst (onScrollStop 150
       (fst (onScroll 0 (wheel 500) (Pageable two_pages)))))) = 0 \<and>
   scrolling (self (fst (onScrollStop 150
       (fst (onScroll 0 (wheel 500) (Pageable two_pages)))))) = False"
  using
    onScrollStop_effect
      [of 150 "fst (onScroll 0 (wheel 500) (Pageable two_pages_easing))"
          "fst (onScrollStop 150 (fst (onScroll 0 (wheel 500) (Pageable two_pages_easing))))"
          "snd (onScrollStop 150 (fst (onScroll 0 (wheel 500) (Pageable two_pages_easing))))"]
    onScrollStop_effect
      [of 150 "fst (onScroll 0 (wheel 500) (Pageable two_pages))"
          "fst (onScrollStop 150 (fst (onScroll 0 (wheel 500) (Pageable two_pages))))"
          "snd (onScrollStop 150 (fst (onScroll 0 (wheel 500) (Pageable two_pages))))"]
  by (simp add: scroll_defs ctor_defs host_defs)

section \<open>The debounce law\<close>

lemma fire_due_not_yet:
  "timeouts (d_host d) = [(k, due)] \<Longrightarrow> t < due \<Longrightarrow> fire_due func t d = d"
  by (simp add: fire_due_def)

lemma fire_due_idle: "timeouts (d_host d) = [] \<Longrightarrow> fire_due func t d = d"
  by (simp add: fire_due_def)

text \<open>A call re-arms: whatever was pending under the closure's handle is cleared, and
  the one timeout pending afterwards is the new one.\<close>

lemma d_call_rearms:
  "timeouts (d_host d) = [] \<or> (d_timeout d = Some k \<and> timeouts (d_host d) = [(k, due)]) \<Longrightarrow>
     d_timeout (d_call wait t d) = Some (next_handle (d_host d)) \<and>
     timeouts (d_host (d_call wait t d)) = [(next_handle (d_host d), t + wait)] \<and>
     d_context (d_call wait t d) = d_context d \<and>
     d_fired (d_call wait t d) = d_fired d"
  by (auto simp add: d_call_def debounced_call_def clearTimeout_def setTimeout_def Let_def
        split: option.splits)

lemma fire_all_single:
  "timeouts (d_host d) = [(k, due)] \<Longrightarrow>
     d_fired (fire_all func d) = d_fired d @ [due] \<and>
     d_context (fire_all func d) = func (d_context d) \<and>
     timeouts (d_host (fire_all func d)) = []"
  by (simp add: fire_all_def expire_def later_def clearTimeout_def)

lemma host_run_armed:
  "burst wait (t0 # ts) \<Longrightarrow> d_timeout d = Some k \<Longrightarrow>
   timeouts (d_host d) = [(k, t0 + wait)] \<Longrightarrow>
     d_fired (host_run func wait ts d) = d_fired d @ [last (t0 # ts) + wait] \<and>
     d_context (host_run func wait ts d) = func (d_context d)"
proof (induction ts arbitrary: t0 d k)
  case Nil
  then show ?case using fire_all_single [of d k "t0 + wait" func] by simp
next
  case (Cons t ts)
  from Cons.prems have gap: "t < t0 + wait" and rest: "burst wait (t # ts)" by simp_all
  let ?d1 = "d_call wait t d"
  from Cons.prems gap have quiet: "fire_due func t d = d"
    by (simp add: fire_due_not_yet)
  from Cons.prems have armed:
    "d_timeout ?d1 = Some (next_handle (d_host d))"
    "timeouts (d_host ?d1) = [(next_handle (d_host d), t + wait)]"
    "d_context ?d1 = d_context d" "d_fired ?d1 = d_fired d"
    using d_call_rearms [of d k "t0 + wait" wait t] by simp_all
  from Cons.IH [OF rest armed(1) armed(2)] armed(3,4) quiet
  show ?case by simp
qed

text \<open>
  C7: for a burst of \<open>N \<ge> 1\<close> calls of the debounced function, each less than \<open>wait\<close>
  after the one before, \<^verbatim>\<open>func\<close> runs exactly once, \<open>wait\<close> after the last call. Time
  is the host's clock in milliseconds, and a timeout's callback runs at its due time.
\<close>

theorem debounce_law:
  "ts \<noteq> [] \<Longrightarrow> burst wait ts \<Longrightarrow>
     d_fired (host_run func wait ts (new_debouncer n c)) = [last ts + wait] \<and>
     d_context (host_run func wait ts (new_debouncer n c)) = func c"
proof -
  assume ne: "ts \<noteq> []" and b: "burst wait ts"
  from ne obtain t ts' where ts: "ts = t # ts'" by (cases ts) auto
  let ?d0 = "new_debouncer n c :: 'a debouncer"
  let ?d1 = "d_call wait t ?d0"
  have idle: "timeouts (d_host ?d0) = []" "d_context ?d0 = c" "d_fired ?d0 = []"
    by (simp_all add: new_debouncer_def)
  then have quiet: "fire_due func t ?d0 = ?d0" by (simp add: fire_due_idle)
  from idle have armed:
    "d_timeout ?d1 = Some (next_handle (d_host ?d0))"
    "timeouts (d_host ?d1) = [(next_handle (d_host ?d0), t + wait)]"
    "d_context ?d1 = c" "d_fired ?d1 = []"
    using d_call_rearms [of ?d0 undefined undefined wait t] by simp_all
  from b ts have "burst wait (t # ts')" by simp
  from host_run_armed [OF this armed(1) armed(2), where func = func] armed(3,4) quiet ts
  show ?thesis by simp
qed

theorem debounce_law_witness:
  "[0, 50, 120] \<noteq> ([] :: int list) \<and> burst 100 [0, 50, 120] \<and>
   d_fired (host_run Suc 100 [0, 50, 120] (new_debouncer 0 0)) = [220] \<and>
   d_context (host_run Suc 100 [0, 50, 120] (new_debouncer 0 0)) = Suc 0"
  using debounce_law [of "[0, 50, 120]" 100 Suc 0 0] by simp

text \<open>Calls that are not one burst: the third call comes 150 ms after the second, and
  \<^verbatim>\<open>func\<close> runs twice.\<close>

lemma two_bursts_fire_twice:
  "d_fired (host_run Suc 100 [0, 50, 200] (new_debouncer 0 0)) = [150, 300]"
  by (simp add: new_debouncer_def fire_due_def fire_all_def expire_def later_def d_call_def
       debounced_call_def clearTimeout_def setTimeout_def)

section \<open>easeOut\<close>

text \<open>
  C8: for all numbers \<open>b\<close> and \<open>c\<close> and every \<open>d > 0\<close>, \<^verbatim>\<open>easeOut(0, b, c, d)\<close> is \<open>b\<close> and
  \<^verbatim>\<open>easeOut(d, b, c, d)\<close> is \<open>b + c\<close>.
\<close>

theorem easeOut_boundary:
  "0 < d \<Longrightarrow> easeOut 0 b c d = b \<and> easeOut d b c d = b + c"
  by (simp add: easeOut_def)

theorem easeOut_boundary_witness:
  "(0::real) < 300 \<and> easeOut 0 (1 / 2) (- (1 / 2)) 300 = 1 / 2
     \<and> easeOut 300 (1 / 2) (- (1 / 2)) 300 = 1 / 2 + - (1 / 2)"
  using easeOut_boundary [of 300 "1 / 2" "- (1 / 2)"] by simp

section \<open>A disabled object\<close>

text \<open>
  C9: while the object is disabled, \<^verbatim>\<open>onScroll\<close> on any event changes nothing (neither
  the object, nor the closure's timeout, nor the host's timers), calls no host callback
  and returns \<^verbatim>\<open>false\<close> without throwing. Its one effect is \<^verbatim>\<open>e.preventDefault()\<close>.
\<close>

theorem onScroll_disabled_noop:
  "disabled (self w) \<Longrightarrow>
     fst (onScroll now e w) = w \<and>
     fst (snd (onScroll now e w)) = [PreventDefault] \<and>
     callbacks (fst (snd (onScroll now e w))) = [] \<and>
     snd (snd (onScroll now e w)) = Inr RetFalse"
  by (simp add: onScroll_def callbacks_def is_callback_def)

theorem onScroll_disabled_noop_witness:
  "disabled (self disabled_two_pages) \<and>
   onScroll 0 (wheel 1000) disabled_two_pages
     = (disabled_two_pages, [PreventDefault], Inr RetFalse)"
  using onScroll_disabled_noop [of disabled_two_pages 0 "wheel 1000"]
  by (simp add: disabled_two_pages_def disable_def onScroll_def)

section \<open>The first event\<close>

text \<open>
  C10: the constructor assigns \<^verbatim>\<open>page\<close>, \<^verbatim>\<open>delta\<close>, \<^verbatim>\<open>scrolling\<close> and \<^verbatim>\<open>stoppedAtPage\<close> but
  not \<^verbatim>\<open>percentage\<close>, which is \<^verbatim>\<open>undefined\<close> in a new object. The first event delivered
  to a new object therefore calls \<^verbatim>\<open>onScrollStart\<close> with \<^verbatim>\<open>undefined\<close> as the percentage
  (and page 0), before anything else is called; handling the event is what first
  assigns \<^verbatim>\<open>percentage\<close>.
\<close>

theorem first_event_percentage_undefined:
  "page (self (Pageable opts)) = 0 \<and> delta (self (Pageable opts)) = 0 \<and>
   scrolling (self (Pageable opts)) = False \<and> stoppedAtPage (self (Pageable opts)) = False \<and>
   percentage (self (Pageable opts)) = Undefined \<and>
   take 2 (fst (snd (onScroll now e (Pageable opts))))
     = [PreventDefault, HostScrollStart Undefined 0] \<and>
   percentage (self (fst (onScroll now e (Pageable opts)))) \<noteq> Undefined"
proof -
  have ctor: "page (self (Pageable opts)) = 0" "delta (self (Pageable opts)) = 0"
    "scrolling (self (Pageable opts)) = False" "stoppedAtPage (self (Pageable opts)) = False"
    "percentage (self (Pageable opts)) = Undefined" "disabled (self (Pageable opts)) = False"
    by (simp_all add: Pageable_def)
  have fx: "take 2 (fst (snd (onScroll now e (Pageable opts))))
     = [PreventDefault, HostScrollStart Undefined 0]"
    by (simp add: onScroll_def Let_def split_def ctor start_if_idle_effects)
  have "percentage (apply_momentum (accumulate e (fst (start_if_idle (self (Pageable opts))))))
      \<noteq> Undefined"
    by (rule apply_momentum_assigned) (simp add: js_div_assigned)
  then have "percentage (self (fst (onScroll now e (Pageable opts)))) \<noteq> Undefined"
    by (simp add: onScroll_accepted ctor)
  with ctor fx show ?thesis by simp
qed

theorem first_event_percentage_undefined_witness:
  "fst (snd (onScroll 0 (wheel 120) (Pageable two_pages)))
     = [PreventDefault, HostScrollStart Undefined 0, HostScroll (Num (3 / 25)) 0]"
  using first_event_percentage_undefined [of two_pages 0 "wheel 120"]
  by (simp add: scroll_defs ctor_defs host_defs)

end
